theory Spec2Isabelle
  imports Main
begin

section \<open>Data model of the To-do page\<close>

text \<open>
  The page component of \<^verbatim>\<open>src/todo-frontend/src/app/To-do/page.tsx\<close> keeps five
  pieces of React state and six handlers. JavaScript strings are modelled as \<open>string\<close>
  (code units below 256). The interface \<^verbatim>\<open>Todo\<close> is a record; the HOL constant \<open>id\<close>
  forces a suffix on its first field.
\<close>

record Todo =
  id_todo :: string
  title :: string
  completed :: bool

record State =
  todos :: "Todo list"
  newTodoTitle :: string
  editingTodo :: "Todo option"
  loading :: bool
  error :: "string option"

text \<open>The initial values of the five \<^verbatim>\<open>useState\<close> calls.\<close>

definition initial_state :: State where
  "initial_state =
     \<lparr>todos = [], newTodoTitle = [], editingTodo = None, loading = True, error = None\<rparr>"

definition API_BASE_URL :: string where
  "API_BASE_URL = ''http://localhost:5000/api/todos''"

subsection \<open>JSON documents and JavaScript conversions\<close>

text \<open>
  A parsed JSON document. Numbers are restricted to integers; objects are association
  lists in document order.
\<close>

datatype json =
    JNull
  | JBool bool
  | JNumber int
  | JString string
  | JArray "json list"
  | JObject "(string \<times> json) list"

text \<open>
  A thrown JavaScript value: an \<^verbatim>\<open>Error\<close> instance with its message, or any other
  value with its \<^verbatim>\<open>String(err)\<close> rendering. \<open>errorMessage\<close> is the first line of
  every \<^verbatim>\<open>catch\<close> block:
  \<^verbatim>\<open>err instanceof Error ? err.message : String(err)\<close>.
\<close>

datatype thrown = Error string | NonError string

fun errorMessage :: "thrown \<Rightarrow> string" where
  "errorMessage (Error m) = m"
| "errorMessage (NonError s) = s"

text \<open>Decimal rendering of a number inside a template literal.\<close>

definition digit_char :: "nat \<Rightarrow> char" where
  "digit_char d = ''0123456789'' ! d"

fun string_of_nat :: "nat \<Rightarrow> string" where
  "string_of_nat n =
     (if n < 10 then [digit_char n] else string_of_nat (n div 10) @ [digit_char (n mod 10)])"

declare string_of_nat.simps [simp del]

definition string_of_int :: "int \<Rightarrow> string" where
  "string_of_int i = (if i < 0 then CHR ''-'' # string_of_nat (nat (- i)) else string_of_nat (nat i))"

text \<open>
  \<^verbatim>\<open>ToString\<close> of a parsed value, as the \<^verbatim>\<open>Error\<close> constructor applies it to its
  argument: arrays join their elements with commas (\<^verbatim>\<open>null\<close> elements render empty),
  objects render by the default \<^verbatim>\<open>Object.prototype.toString\<close>.
\<close>

fun join_comma :: "string list \<Rightarrow> string" where
  "join_comma [] = []"
| "join_comma [x] = x"
| "join_comma (x # y # ys) = x @ '','' @ join_comma (y # ys)"

fun ToString :: "json \<Rightarrow> string" where
  "ToString JNull = ''null''"
| "ToString (JBool b) = (if b then ''true'' else ''false'')"
| "ToString (JNumber i) = string_of_int i"
| "ToString (JString s) = s"
| "ToString (JArray xs) =
     join_comma (map (\<lambda>x. if x = JNull then [] else ToString x) xs)"
| "ToString (JObject kvs) = ''[object Object]''"

text \<open>Truthiness of a property value; \<open>None\<close> is \<^verbatim>\<open>undefined\<close>.\<close>

fun truthy :: "json option \<Rightarrow> bool" where
  "truthy None = False"
| "truthy (Some JNull) = False"
| "truthy (Some (JBool b)) = b"
| "truthy (Some (JNumber i)) = (i \<noteq> 0)"
| "truthy (Some (JString s)) = (s \<noteq> [])"
| "truthy (Some (JArray xs)) = True"
| "truthy (Some (JObject kvs)) = True"

text \<open>
  The property read \<^verbatim>\<open>errorData.message\<close>. On \<^verbatim>\<open>null\<close> it throws a
  \<^verbatim>\<open>TypeError\<close> (the message text is the engine's); on an object the last entry for
  the key counts, as \<^verbatim>\<open>JSON.parse\<close> keeps it; every other value has no such property.
\<close>

definition null_read_message :: string where
  "null_read_message =
     ''Cannot read properties of null (reading '' @ [CHR 0x27] @ ''message'' @ [CHR 0x27] @ '')''"

fun get_message :: "json \<Rightarrow> thrown + json option" where
  "get_message JNull = Inl (Error null_read_message)"
| "get_message (JObject kvs) = Inr (map_of (rev kvs) ''message'')"
| "get_message (JBool b) = Inr None"
| "get_message (JNumber i) = Inr None"
| "get_message (JString s) = Inr None"
| "get_message (JArray xs) = Inr None"

text \<open>
  \<^verbatim>\<open>String.prototype.trim\<close>: white space and line terminators of ECMAScript among
  the code units below 256 (TAB, LF, VT, FF, CR, SP, NBSP) are removed at both ends.
\<close>

definition is_js_space :: "char \<Rightarrow> bool" where
  "is_js_space c = ((of_char c :: nat) \<in> set [9, 10, 11, 12, 13, 32, 160])"

definition trim :: "string \<Rightarrow> string" where
  "trim s = rev (dropWhile is_js_space (rev (dropWhile is_js_space s)))"

subsection \<open>Requests and responses\<close>

text \<open>
  What a handler passes to \<^verbatim>\<open>fetch\<close>. The body is the result of
  \<^verbatim>\<open>JSON.stringify\<close>: the serialized text is represented by the JSON document it
  denotes, and \<open>None\<close> is \<^verbatim>\<open>undefined\<close> (no body is sent).
\<close>

record request =
  req_method :: string
  req_url :: string
  req_headers :: "(string \<times> string) list"
  req_body :: "json option"

datatype stringify_arg = PlainValue json | FunctionValue

fun JSON_stringify :: "stringify_arg \<Rightarrow> json option" where
  "JSON_stringify (PlainValue j) = Some j"
| "JSON_stringify FunctionValue = None"

definition json_of_Todo :: "Todo \<Rightarrow> json" where
  "json_of_Todo t =
     JObject [(''id'', JString (id_todo t)), (''title'', JString (title t)),
              (''completed'', JBool (completed t))]"

definition json_headers :: "(string \<times> string) list" where
  "json_headers = [(''Content-Type'', ''application/json'')]"

text \<open>
  The outcome of \<^verbatim>\<open>await response.json()\<close>. The source reads the body once: untyped
  (\<^verbatim>\<open>errorData\<close>) under \<^verbatim>\<open>!response.ok\<close>, and under the TypeScript type it
  ascribes (\<^verbatim>\<open>Todo[]\<close>, \<^verbatim>\<open>Todo\<close>) otherwise. The ascription is unchecked, so the
  response carries both readings; a body of another shape than the ascribed type has no
  typed reading and lies outside the model.
\<close>

datatype 'a json_outcome = Throws thrown | Returns 'a

record 'a response =
  status :: nat
  json_any :: "json json_outcome"
  json_typed :: "'a json_outcome"

definition ok :: "'a response \<Rightarrow> bool" where
  "ok r = (200 \<le> status r \<and> status r \<le> 299)"

datatype 'a fetch_outcome = Rejects thrown | Resolves "'a response"

text \<open>
  The body of every \<^verbatim>\<open>if (!response.ok)\<close> block:
  \<^verbatim>\<open>const errorData = await response.json();
  throw new Error(errorData.message || `HTTP error! status: ${response.status}`)\<close>.
  The result is the value that ends up thrown.
\<close>

definition generic_message :: "'a response \<Rightarrow> string" where
  "generic_message r = ''HTTP error! status: '' @ string_of_nat (status r)"

definition http_error :: "'a response \<Rightarrow> thrown" where
  "http_error r =
     (case json_any r of
        Throws e \<Rightarrow> e
      | Returns errorData \<Rightarrow>
          (case get_message errorData of
             Inl e \<Rightarrow> e
           | Inr None \<Rightarrow> Error (generic_message r)
           | Inr (Some m) \<Rightarrow>
               Error (if truthy (Some m) then ToString m else generic_message r)))"

section \<open>The handlers\<close>

text \<open>
  Each asynchronous handler takes \<^verbatim>\<open>fetch\<close> as a function from the request to its
  outcome and the state it was invoked in; it returns the request it issued (if any) and
  the state after all its setters have run.
\<close>

definition fetchTodos_request :: request where
  "fetchTodos_request =
     \<lparr>req_method = ''GET'', req_url = API_BASE_URL, req_headers = [], req_body = None\<rparr>"

definition fetchTodos ::
  "(request \<Rightarrow> Todo list fetch_outcome) \<Rightarrow> State \<Rightarrow> request option \<times> State" where
  "fetchTodos fetch s =
     (let s1 = s\<lparr>loading := True, error := None\<rparr>;
          tried =
            (case fetch fetchTodos_request of
               Rejects e \<Rightarrow> Inl e
             | Resolves response \<Rightarrow>
                 if \<not> ok response then Inl (http_error response)
                 else (case json_typed response of
                         Throws e \<Rightarrow> Inl e
                       | Returns data \<Rightarrow> Inr data));
          s2 =
            (case tried of
               Inr data \<Rightarrow> s1\<lparr>todos := data\<rparr>
             | Inl err \<Rightarrow> s1\<lparr>error := Some (''Failed to load todos: '' @ errorMessage err)\<rparr>)
      in (Some fetchTodos_request, s2\<lparr>loading := False\<rparr>))"

definition empty_title_message :: string where
  "empty_title_message = ''Todo title can'' @ [CHR 0x27] @ ''t be empty.''"

definition addTodo_request :: "State \<Rightarrow> request" where
  "addTodo_request s =
     \<lparr>req_method = ''POST'', req_url = API_BASE_URL, req_headers = json_headers,
      req_body = JSON_stringify (PlainValue (JObject [(''title'', JString (newTodoTitle s))]))\<rparr>"

definition addTodo ::
  "(request \<Rightarrow> Todo fetch_outcome) \<Rightarrow> State \<Rightarrow> request option \<times> State" where
  "addTodo fetch s =
     (if trim (newTodoTitle s) = [] then (None, s\<lparr>error := Some empty_title_message\<rparr>)
      else
        let s1 = s\<lparr>error := None\<rparr>;
            tried =
              (case fetch (addTodo_request s) of
                 Rejects e \<Rightarrow> Inl e
               | Resolves response \<Rightarrow>
                   if \<not> ok response then Inl (http_error response)
                   else (case json_typed response of
                           Throws e \<Rightarrow> Inl e
                         | Returns addedTodo \<Rightarrow> Inr addedTodo))
        in (Some (addTodo_request s),
            case tried of
              Inr addedTodo \<Rightarrow> s1\<lparr>todos := todos s @ [addedTodo], newTodoTitle := []\<rparr>
            | Inl err \<Rightarrow> s1\<lparr>error := Some (''Failed to add todo: '' @ errorMessage err)\<rparr>))"

definition toggle_request :: "Todo \<Rightarrow> request" where
  "toggle_request todoToToggle =
     (let updatedTodo = todoToToggle\<lparr>completed := \<not> completed todoToToggle\<rparr>
      in \<lparr>req_method = ''PUT'', req_url = API_BASE_URL @ ''/'' @ id_todo todoToToggle,
          req_headers = json_headers,
          req_body = JSON_stringify (PlainValue (json_of_Todo updatedTodo))\<rparr>)"

definition toggleTodoCompleted ::
  "(request \<Rightarrow> 'a fetch_outcome) \<Rightarrow> Todo \<Rightarrow> State \<Rightarrow> request option \<times> State" where
  "toggleTodoCompleted fetch todoToToggle s =
     (let s1 = s\<lparr>error := None\<rparr>;
          updatedTodo = todoToToggle\<lparr>completed := \<not> completed todoToToggle\<rparr>;
          tried =
            (case fetch (toggle_request todoToToggle) of
               Rejects e \<Rightarrow> Inl e
             | Resolves response \<Rightarrow>
                 if \<not> ok response then Inl (http_error response) else Inr ())
      in (Some (toggle_request todoToToggle),
          case tried of
            Inr _ \<Rightarrow>
              s1\<lparr>todos :=
                   map (\<lambda>t. if id_todo t = id_todo todoToToggle then updatedTodo else t)
                     (todos s)\<rparr>
          | Inl err \<Rightarrow> s1\<lparr>error := Some (''Failed to update todo: '' @ errorMessage err)\<rparr>))"

definition deleteTodo_request :: "string \<Rightarrow> request" where
  "deleteTodo_request i =
     \<lparr>req_method = ''DELETE'', req_url = API_BASE_URL @ ''/'' @ i, req_headers = [],
      req_body = None\<rparr>"

definition deleteTodo ::
  "(request \<Rightarrow> 'a fetch_outcome) \<Rightarrow> string \<Rightarrow> State \<Rightarrow> request option \<times> State" where
  "deleteTodo fetch i s =
     (let s1 = s\<lparr>error := None\<rparr>;
          tried =
            (case fetch (deleteTodo_request i) of
               Rejects e \<Rightarrow> Inl e
             | Resolves response \<Rightarrow>
                 if \<not> ok response then
                   (if status response \<noteq> 204 then Inl (http_error response) else Inr ())
                 else Inr ())
      in (Some (deleteTodo_request i),
          case tried of
            Inr _ \<Rightarrow> s1\<lparr>todos := filter (\<lambda>t. id_todo t \<noteq> i) (todos s)\<rparr>
          | Inl err \<Rightarrow> s1\<lparr>error := Some (''Failed to delete todo: '' @ errorMessage err)\<rparr>))"

definition startEditing :: "Todo \<Rightarrow> State \<Rightarrow> State" where
  "startEditing todoToEdit s =
     s\<lparr>editingTodo := Some todoToEdit, newTodoTitle := title todoToEdit, error := None\<rparr>"

definition cant_update_message :: string where
  "cant_update_message =
     ''Can'' @ [CHR 0x27] @ ''t update with empty title or no todo selected.''"

text \<open>
  The request of \<^verbatim>\<open>updateTodo\<close>, as written: the method is spelled \<^verbatim>\<open>'Put'\<close> and the
  body is \<^verbatim>\<open>JSON.stringify(updateTodo)\<close>, the handler function itself, not the local
  \<^verbatim>\<open>updatedTodo\<close>.
\<close>

definition updateTodo_request :: "Todo \<Rightarrow> request" where
  "updateTodo_request editing =
     \<lparr>req_method = ''Put'', req_url = API_BASE_URL @ ''/'' @ id_todo editing,
      req_headers = json_headers, req_body = JSON_stringify FunctionValue\<rparr>"

definition updateTodo ::
  "(request \<Rightarrow> 'a fetch_outcome) \<Rightarrow> State \<Rightarrow> request option \<times> State" where
  "updateTodo fetch s =
     (case editingTodo s of
        None \<Rightarrow> (None, s\<lparr>error := Some cant_update_message\<rparr>)
      | Some editing \<Rightarrow>
          if trim (newTodoTitle s) = [] then (None, s\<lparr>error := Some cant_update_message\<rparr>)
          else
            let s1 = s\<lparr>error := None\<rparr>;
                updatedTodo = editing\<lparr>title := trim (newTodoTitle s)\<rparr>;
                tried =
                  (case fetch (updateTodo_request editing) of
                     Rejects e \<Rightarrow> Inl e
                   | Resolves response \<Rightarrow>
                       if \<not> ok response then Inl (http_error response) else Inr ())
            in (Some (updateTodo_request editing),
                case tried of
                  Inr _ \<Rightarrow>
                    s1\<lparr>todos :=
                         map (\<lambda>t. if id_todo t = id_todo editing then updatedTodo else t)
                           (todos s),
                       editingTodo := None, newTodoTitle := []\<rparr>
                | Inl err \<Rightarrow>
                    s1\<lparr>error := Some (''Failed to update todo: '' @ errorMessage err)\<rparr>))"

text \<open>The inline \<^verbatim>\<open>onClick\<close> of the Cancel Edit button.\<close>

definition cancelEdit :: "State \<Rightarrow> State" where
  "cancelEdit s = s\<lparr>editingTodo := None, newTodoTitle := []\<rparr>"

text \<open>The form's \<^verbatim>\<open>onSubmit={editingTodo ? updateTodo : addTodo}\<close>.\<close>

definition submit ::
  "(request \<Rightarrow> Todo fetch_outcome) \<Rightarrow> State \<Rightarrow> request option \<times> State" where
  "submit fetch s = (if editingTodo s \<noteq> None then updateTodo fetch s else addTodo fetch s)"

section \<open>Outcomes of one operation\<close>




text \<open>
  The \<^verbatim>\<open>message\<close> field of an error body: \<open>message_field j = Some v\<close> when \<open>j\<close> is an
  object whose \<^verbatim>\<open>message\<close> is \<open>v\<close>; \<open>object_without_message j\<close> when \<open>j\<close> is an object
  with no such field.
\<close>

definition message_field :: "json \<Rightarrow> json option" where
  "message_field j = (case j of JObject kvs \<Rightarrow> map_of (rev kvs) ''message'' | _ \<Rightarrow> None)"

text \<open>
  \<open>error_body out code j\<close>: the call settled with the non-success status \<open>code\<close> and a
  body that parses to \<open>j\<close>.
\<close>

definition error_body :: "'a fetch_outcome \<Rightarrow> nat \<Rightarrow> json \<Rightarrow> bool" where
  "error_body out code j =
     (case out of
        Rejects e \<Rightarrow> False
      | Resolves r \<Rightarrow> \<not> ok r \<and> status r = code \<and> json_any r = Returns j)"

definition object_without_message :: "json \<Rightarrow> bool" where
  "object_without_message j =
     (case j of JObject kvs \<Rightarrow> map_of (rev kvs) ''message'' = None | _ \<Rightarrow> False)"

section \<open>Worked scenarios\<close>

text \<open>Concrete items, states and server behaviours used to instantiate the theorems.\<close>

definition milk :: Todo where
  "milk = \<lparr>id_todo = ''1'', title = ''buy milk'', completed = False\<rparr>"

definition bread :: Todo where
  "bread = \<lparr>id_todo = ''2'', title = ''bake bread'', completed = True\<rparr>"

definition milk_again :: Todo where
  "milk_again = \<lparr>id_todo = ''1'', title = ''buy more milk'', completed = True\<rparr>"

definition listing :: State where
  "listing =
     \<lparr>todos = [milk, bread, milk_again], newTodoTitle = '' walk dog '', editingTodo = None,
      loading = False, error = None\<rparr>"

definition editing_milk :: State where
  "editing_milk =
     \<lparr>todos = [milk, bread, milk_again], newTodoTitle = '' buy oat milk '',
      editingTodo = Some milk, loading = False,
      error = Some ''Failed to update todo: db down''\<rparr>"

definition blank_draft :: State where
  "blank_draft =
     \<lparr>todos = [milk], newTodoTitle = [CHR 0x20, CHR 0x09, CHR 0x20], editingTodo = None,
      loading = False, error = None\<rparr>"

definition walk_dog :: Todo where
  "walk_dog = \<lparr>id_todo = ''3'', title = '' walk dog '', completed = False\<rparr>"

definition oat_milk :: Todo where
  "oat_milk = \<lparr>id_todo = ''1'', title = ''buy oat milk'', completed = False\<rparr>"

definition milk_done :: Todo where
  "milk_done = \<lparr>id_todo = ''1'', title = ''buy milk'', completed = True\<rparr>"

text \<open>A server that answers every request with the same response.\<close>

definition serve :: "'a response \<Rightarrow> request \<Rightarrow> 'a fetch_outcome" where
  "serve r req = Resolves r"

definition not_json :: thrown where
  "not_json = Error ''Unexpected end of JSON input''"

text \<open>
  The typed reading of a failure response in the scenarios below; no handler takes it,
  since the typed reading is only taken under a success status.
\<close>

definition untaken :: "'a json_outcome" where
  "untaken = Throws (NonError ''typed reading of a failure response'')"

definition listing_response :: "Todo list response" where
  "listing_response =
     \<lparr>status = 200, json_any = Returns (JArray [json_of_Todo bread, json_of_Todo milk]),
      json_typed = Returns [bread, milk]\<rparr>"

definition created_response :: "Todo response" where
  "created_response =
     \<lparr>status = 201, json_any = Returns (json_of_Todo walk_dog), json_typed = Returns walk_dog\<rparr>"

definition accepted :: "unit response" where
  "accepted = \<lparr>status = 200, json_any = Returns (JObject []), json_typed = Returns ()\<rparr>"

definition no_content :: "'a response" where
  "no_content = \<lparr>status = 204, json_any = Throws not_json, json_typed = Throws not_json\<rparr>"

definition garbled :: "'a response" where
  "garbled = \<lparr>status = 200, json_any = Throws not_json, json_typed = Throws not_json\<rparr>"

definition failure :: "nat \<Rightarrow> json \<Rightarrow> 'a response" where
  "failure code j = \<lparr>status = code, json_any = Returns j, json_typed = untaken\<rparr>"

definition db_down :: json where
  "db_down = JObject [(''message'', JString ''db down'')]"

definition empty_message :: json where
  "empty_message = JObject [(''message'', JString [])]"

definition no_message :: json where
  "no_message = JObject [(''code'', JNumber 7)]"

section \<open>Auxiliary facts\<close>

lemma string_of_nat_nonempty: "string_of_nat n \<noteq> []"
  by (subst string_of_nat.simps) simp











lemma http_error_message:
  "json_any r = Returns j \<Longrightarrow> message_field j = Some (JString m) \<Longrightarrow> m \<noteq> []
   \<Longrightarrow> errorMessage (http_error r) = m"
  by (cases j) (simp_all add: http_error_def message_field_def)

lemma http_error_generic:
  "json_any r = Returns j \<Longrightarrow> object_without_message j
   \<Longrightarrow> errorMessage (http_error r) = generic_message r"
  by (cases j) (simp_all add: http_error_def object_without_message_def)

lemma http_error_empty:
  "json_any r = Returns j \<Longrightarrow> message_field j = Some (JString [])
   \<Longrightarrow> errorMessage (http_error r) = generic_message r"
  by (cases j) (simp_all add: http_error_def message_field_def)




lemma fetchTodos_status_error:
  "fetch fetchTodos_request = Resolves r \<Longrightarrow> \<not> ok r
   \<Longrightarrow> error (snd (fetchTodos fetch s))
       = Some (''Failed to load todos: '' @ errorMessage (http_error r))"
  by (simp add: fetchTodos_def)

lemma addTodo_status_error:
  "trim (newTodoTitle s) \<noteq> [] \<Longrightarrow> fetch (addTodo_request s) = Resolves r \<Longrightarrow> \<not> ok r
   \<Longrightarrow> error (snd (addTodo fetch s))
       = Some (''Failed to add todo: '' @ errorMessage (http_error r))"
  by (simp add: addTodo_def)

lemma toggle_status_error:
  "fetch (toggle_request t) = Resolves r \<Longrightarrow> \<not> ok r
   \<Longrightarrow> error (snd (toggleTodoCompleted fetch t s))
       = Some (''Failed to update todo: '' @ errorMessage (http_error r))"
  by (simp add: toggleTodoCompleted_def)

lemma update_status_error:
  "editingTodo s = Some e \<Longrightarrow> trim (newTodoTitle s) \<noteq> []
   \<Longrightarrow> fetch (updateTodo_request e) = Resolves r \<Longrightarrow> \<not> ok r
   \<Longrightarrow> error (snd (updateTodo fetch s))
       = Some (''Failed to update todo: '' @ errorMessage (http_error r))"
  by (simp add: updateTodo_def)

lemma delete_status_error:
  "fetch (deleteTodo_request i) = Resolves r \<Longrightarrow> \<not> ok r
   \<Longrightarrow> error (snd (deleteTodo fetch i s))
       = Some (''Failed to delete todo: '' @ errorMessage (http_error r))"
  by (auto simp: deleteTodo_def ok_def)

lemma error_bodyD:
  "error_body out code j \<Longrightarrow> \<exists>r. out = Resolves r \<and> \<not> ok r \<and> status r = code \<and> json_any r = Returns j"
  by (cases out) (simp_all add: error_body_def)

section \<open>Submitting an update\<close>

text \<open>
  C1. An update submission with a target and a non-blank draft issues one request to the
  item's URL. As the handler is written, the method is spelled \<^verbatim>\<open>Put\<close> and the body
  is \<^verbatim>\<open>JSON.stringify\<close> of the handler function, which is \<^verbatim>\<open>undefined\<close>: no body
  is sent, and in particular not the updated item with the trimmed draft as its title.
\<close>

theorem updateTodo_sends_no_body:
  assumes "editingTodo s = Some editing"
    and "trim (newTodoTitle s) \<noteq> []"
  shows "fst (updateTodo fetch s) = Some (updateTodo_request editing)
       \<and> req_method (updateTodo_request editing) = ''Put''
       \<and> req_url (updateTodo_request editing) = API_BASE_URL @ ''/'' @ id_todo editing
       \<and> req_body (updateTodo_request editing) = None
       \<and> req_body (updateTodo_request editing)
           \<noteq> Some (json_of_Todo (editing\<lparr>title := trim (newTodoTitle s)\<rparr>))"
  using assms by (simp add: updateTodo_def updateTodo_request_def Let_def)

theorem updateTodo_sends_no_body_witness:
  "editingTodo editing_milk = Some milk
   \<and> trim (newTodoTitle editing_milk) = ''buy oat milk''
   \<and> fst (updateTodo (serve accepted) editing_milk) = Some (updateTodo_request milk)
   \<and> req_method (updateTodo_request milk) = ''Put''
   \<and> req_body (updateTodo_request milk) = None
   \<and> req_body (updateTodo_request milk) \<noteq> Some (json_of_Todo oat_milk)"
  using updateTodo_sends_no_body [of editing_milk milk "serve accepted"]
  by (simp add: editing_milk_def milk_def oat_milk_def trim_def is_js_space_def)

section \<open>Leaving Editing mode\<close>

text \<open>
  C2. The claim asks that Cancel Edit, from every state in Editing mode, returns to
  Adding, empties the draft, clears the error slot and leaves the collection unchanged.
  The inline handler calls \<^verbatim>\<open>setEditingTodo(null)\<close> and \<^verbatim>\<open>setNewTodoTitle('')\<close>
  only: the call \<^verbatim>\<open>setError(null)\<close>, which \<open>startEditing\<close> and every other handler
  make, is missing. The handler as written therefore returns to Adding with an empty
  draft and an unchanged collection, but the error slot keeps what it held, so a message
  left by a failed update is still shown after the cancel.
\<close>

theorem cancelEdit_leaves_error:
  assumes "editingTodo s \<noteq> None"
  shows "editingTodo (cancelEdit s) = None
       \<and> newTodoTitle (cancelEdit s) = []
       \<and> todos (cancelEdit s) = todos s
       \<and> error (cancelEdit s) = error s
       \<and> error (startEditing t s) = None"
  by (simp add: cancelEdit_def startEditing_def)

theorem cancelEdit_leaves_error_witness:
  "editingTodo editing_milk \<noteq> None
   \<and> editingTodo (cancelEdit editing_milk) = None
   \<and> newTodoTitle (cancelEdit editing_milk) = []
   \<and> todos (cancelEdit editing_milk) = [milk, bread, milk_again]
   \<and> error (cancelEdit editing_milk) = Some ''Failed to update todo: db down''
   \<and> error (cancelEdit editing_milk) \<noteq> None
   \<and> error (startEditing bread editing_milk) = None"
  using cancelEdit_leaves_error [of editing_milk bread]
  by (simp add: editing_milk_def)

section \<open>Local validation\<close>

text \<open>
  C5. In Adding mode, submitting a draft that trims to the empty string issues no
  request, puts the validation message into the error slot and leaves the collection and
  the draft unchanged.
\<close>

theorem submit_blank_draft_is_local:
  assumes "editingTodo s = None"
    and "trim (newTodoTitle s) = []"
  shows "fst (submit fetch s) = None
       \<and> error (snd (submit fetch s)) = Some empty_title_message
       \<and> empty_title_message \<noteq> []
       \<and> todos (snd (submit fetch s)) = todos s
       \<and> newTodoTitle (snd (submit fetch s)) = newTodoTitle s"
  using assms by (simp add: submit_def addTodo_def empty_title_message_def)

theorem submit_blank_draft_is_local_witness:
  "editingTodo blank_draft = None
   \<and> trim (newTodoTitle blank_draft) = []
   \<and> fst (submit (serve created_response) blank_draft) = None
   \<and> error (snd (submit (serve created_response) blank_draft)) = Some empty_title_message
   \<and> todos (snd (submit (serve created_response) blank_draft)) = [milk]
   \<and> newTodoTitle (snd (submit (serve created_response) blank_draft))
       = [CHR 0x20, CHR 0x09, CHR 0x20]"
  using submit_blank_draft_is_local [of blank_draft "serve created_response"]
  by (simp add: blank_draft_def trim_def is_js_space_def)

section \<open>Successful operations\<close>

text \<open>
  C6. After a fetch that settles with a success status and a body that parses as an array
  of items, the collection is that array, in its order, loading is off and the error slot
  is empty.
\<close>

theorem fetchTodos_success_replaces_collection:
  assumes "fetch fetchTodos_request = Resolves r"
    and "ok r"
    and "json_typed r = Returns server_array"
  shows "todos (snd (fetchTodos fetch s)) = server_array
       \<and> loading (snd (fetchTodos fetch s)) = False
       \<and> error (snd (fetchTodos fetch s)) = None"
  using assms by (simp add: fetchTodos_def)

theorem fetchTodos_success_replaces_collection_witness:
  "serve listing_response fetchTodos_request = Resolves listing_response
   \<and> ok listing_response
   \<and> json_typed listing_response = Returns [bread, milk]
   \<and> todos (snd (fetchTodos (serve listing_response) editing_milk)) = [bread, milk]
   \<and> loading (snd (fetchTodos (serve listing_response) editing_milk)) = False
   \<and> error (snd (fetchTodos (serve listing_response) editing_milk)) = None"
  using fetchTodos_success_replaces_collection
    [of "serve listing_response" listing_response "[bread, milk]" editing_milk]
  by (simp add: serve_def listing_response_def ok_def)

text \<open>
  C7. After a create that settles with a success status and a body that parses as an
  item, the collection is the prior collection followed by that item: one element longer,
  every prior element at its index, the new item last; the draft is empty.
\<close>

theorem addTodo_success_appends:
  assumes "trim (newTodoTitle s) \<noteq> []"
    and "fetch (addTodo_request s) = Resolves r"
    and "ok r"
    and "json_typed r = Returns addedTodo"
  shows "todos (snd (addTodo fetch s)) = todos s @ [addedTodo]
       \<and> length (todos (snd (addTodo fetch s))) = Suc (length (todos s))
       \<and> (\<forall>k < length (todos s). todos (snd (addTodo fetch s)) ! k = todos s ! k)
       \<and> last (todos (snd (addTodo fetch s))) = addedTodo
       \<and> newTodoTitle (snd (addTodo fetch s)) = []"
  using assms by (simp add: addTodo_def nth_append)

theorem addTodo_success_appends_witness:
  "trim (newTodoTitle listing) \<noteq> []
   \<and> serve created_response (addTodo_request listing) = Resolves created_response
   \<and> ok created_response
   \<and> json_typed created_response = Returns walk_dog
   \<and> todos (snd (addTodo (serve created_response) listing)) = [milk, bread, milk_again, walk_dog]
   \<and> newTodoTitle (snd (addTodo (serve created_response) listing)) = []"
  using addTodo_success_appends [of listing "serve created_response" created_response walk_dog]
  by (simp add: listing_def serve_def created_response_def ok_def trim_def is_js_space_def)

text \<open>
  C8. Toggling an item \<open>X\<close> of the collection sends a PUT to the item's URL whose body is
  \<open>X\<close> with the completed flag inverted; when the call settles with a success status,
  every element with the id of \<open>X\<close> is that payload and every other element is unchanged.
\<close>

theorem toggle_success_replaces_item:
  assumes "X \<in> set (todos s)"
    and "fetch (toggle_request X) = Resolves r"
    and "ok r"
  shows "fst (toggleTodoCompleted fetch X s) = Some (toggle_request X)
       \<and> req_method (toggle_request X) = ''PUT''
       \<and> req_url (toggle_request X) = API_BASE_URL @ ''/'' @ id_todo X
       \<and> req_body (toggle_request X) = Some (json_of_Todo (X\<lparr>completed := \<not> completed X\<rparr>))
       \<and> length (todos (snd (toggleTodoCompleted fetch X s))) = length (todos s)
       \<and> (\<forall>k < length (todos s).
            todos (snd (toggleTodoCompleted fetch X s)) ! k =
              (if id_todo (todos s ! k) = id_todo X then X\<lparr>completed := \<not> completed X\<rparr>
               else todos s ! k))
       \<and> X\<lparr>completed := \<not> completed X\<rparr> \<in> set (todos (snd (toggleTodoCompleted fetch X s)))"
  using assms by (auto simp: toggleTodoCompleted_def toggle_request_def Let_def)

theorem toggle_success_replaces_item_witness:
  "bread \<in> set (todos listing)
   \<and> serve accepted (toggle_request bread) = Resolves accepted
   \<and> ok accepted
   \<and> req_body (toggle_request bread)
       = Some (JObject [(''id'', JString ''2''), (''title'', JString ''bake bread''),
                        (''completed'', JBool False)])
   \<and> todos (snd (toggleTodoCompleted (serve accepted) bread listing))
       = [milk, bread\<lparr>completed := False\<rparr>, milk_again]"
  using toggle_success_replaces_item [of bread listing "serve accepted" accepted]
  by (simp add: listing_def serve_def accepted_def ok_def bread_def toggleTodoCompleted_def
      toggle_request_def json_of_Todo_def milk_def milk_again_def)

section \<open>Frame of the list operations\<close>

text \<open>
  C9. Toggle and remove, whatever the outcome of the call, leave the draft and the
  editing target as they were; so does the initial fetch. Only the submissions and the
  start and cancel actions write them.
\<close>

theorem toggle_and_remove_keep_draft_and_target:
  "newTodoTitle (snd (toggleTodoCompleted fetch1 t s)) = newTodoTitle s
   \<and> editingTodo (snd (toggleTodoCompleted fetch1 t s)) = editingTodo s
   \<and> newTodoTitle (snd (deleteTodo fetch2 i s)) = newTodoTitle s
   \<and> editingTodo (snd (deleteTodo fetch2 i s)) = editingTodo s
   \<and> newTodoTitle (snd (fetchTodos fetch3 s)) = newTodoTitle s
   \<and> editingTodo (snd (fetchTodos fetch3 s)) = editingTodo s"
  by (simp add: toggleTodoCompleted_def deleteTodo_def fetchTodos_def
      split: fetch_outcome.split json_outcome.split)

theorem toggle_and_remove_keep_draft_and_target_witness:
  "newTodoTitle (snd (toggleTodoCompleted (serve (failure 500 db_down :: unit response)) bread
      editing_milk)) = newTodoTitle editing_milk
   \<and> editingTodo (snd (toggleTodoCompleted (serve accepted) bread editing_milk)) = Some milk
   \<and> newTodoTitle (snd (deleteTodo (serve (no_content :: unit response)) ''1'' editing_milk))
       = '' buy oat milk ''
   \<and> editingTodo (snd (deleteTodo (serve (no_content :: unit response)) ''1'' editing_milk))
       = Some milk
   \<and> editingTodo (snd (deleteTodo (serve (failure 404 no_message :: unit response)) ''1''
        editing_milk)) = Some milk"
  using toggle_and_remove_keep_draft_and_target
      [of "serve (failure 500 db_down :: unit response)" bread editing_milk
          "serve (no_content :: unit response)" "''1''" "serve garbled"]
    toggle_and_remove_keep_draft_and_target
      [of "serve accepted" bread editing_milk
          "serve (failure 404 no_message :: unit response)" "''1''" "serve garbled"]
  by (simp add: editing_milk_def)

section \<open>Failing operations\<close>




text \<open>
  C4, as stated, lets every string in the \<^verbatim>\<open>message\<close> field surface. The handlers
  fall back to the status text whenever the field is falsy, and the empty string is.
\<close>

theorem empty_message_counterexample:
  "error_body (serve (failure 500 empty_message :: unit response) (toggle_request milk)) 500
     empty_message
   \<and> message_field empty_message = Some (JString [])
   \<and> error (snd (toggleTodoCompleted (serve (failure 500 empty_message :: unit response)) milk
        listing))
       \<noteq> Some (''Failed to update todo: '' @ [])
   \<and> error (snd (toggleTodoCompleted (serve (failure 500 empty_message :: unit response)) milk
        listing))
       = Some ''Failed to update todo: HTTP error! status: 500''"
  by (simp add: error_body_def serve_def failure_def ok_def empty_message_def message_field_def
      toggleTodoCompleted_def http_error_def generic_message_def string_of_nat.simps
      digit_char_def)

text \<open>
  C4, amended. When a call settles with a non-success status and a body that parses to
  an object, a non-empty string in its \<^verbatim>\<open>message\<close> field is the surfaced error, after
  the operation's prefix; an object without the field, or with the empty string in it,
  surfaces the generic text with the status code, after the same prefix. This holds for
  each of the five operations.
\<close>

theorem status_error_message_surfaces:
  "(error_body (fL fetchTodos_request) code j \<longrightarrow>
      (message_field j = Some (JString m) \<and> m \<noteq> [] \<longrightarrow>
         error (snd (fetchTodos fL s)) = Some (''Failed to load todos: '' @ m))
    \<and> (object_without_message j \<or> message_field j = Some (JString []) \<longrightarrow>
         error (snd (fetchTodos fL s))
           = Some (''Failed to load todos: HTTP error! status: '' @ string_of_nat code)))
 \<and> (trim (newTodoTitle sA) \<noteq> [] \<and> error_body (fA (addTodo_request sA)) code j \<longrightarrow>
      (message_field j = Some (JString m) \<and> m \<noteq> [] \<longrightarrow>
         error (snd (addTodo fA sA)) = Some (''Failed to add todo: '' @ m))
    \<and> (object_without_message j \<or> message_field j = Some (JString []) \<longrightarrow>
         error (snd (addTodo fA sA))
           = Some (''Failed to add todo: HTTP error! status: '' @ string_of_nat code)))
 \<and> (error_body (fT (toggle_request t)) code j \<longrightarrow>
      (message_field j = Some (JString m) \<and> m \<noteq> [] \<longrightarrow>
         error (snd (toggleTodoCompleted fT t s)) = Some (''Failed to update todo: '' @ m))
    \<and> (object_without_message j \<or> message_field j = Some (JString []) \<longrightarrow>
         error (snd (toggleTodoCompleted fT t s))
           = Some (''Failed to update todo: HTTP error! status: '' @ string_of_nat code)))
 \<and> (editingTodo sU = Some e \<and> trim (newTodoTitle sU) \<noteq> []
      \<and> error_body (fU (updateTodo_request e)) code j \<longrightarrow>
      (message_field j = Some (JString m) \<and> m \<noteq> [] \<longrightarrow>
         error (snd (updateTodo fU sU)) = Some (''Failed to update todo: '' @ m))
    \<and> (object_without_message j \<or> message_field j = Some (JString []) \<longrightarrow>
         error (snd (updateTodo fU sU))
           = Some (''Failed to update todo: HTTP error! status: '' @ string_of_nat code)))
 \<and> (error_body (fD (deleteTodo_request i)) code j \<longrightarrow>
      (message_field j = Some (JString m) \<and> m \<noteq> [] \<longrightarrow>
         error (snd (deleteTodo fD i s)) = Some (''Failed to delete todo: '' @ m))
    \<and> (object_without_message j \<or> message_field j = Some (JString []) \<longrightarrow>
         error (snd (deleteTodo fD i s))
           = Some (''Failed to delete todo: HTTP error! status: '' @ string_of_nat code)))"
  by (intro conjI impI; (elim conjE)?; drule error_bodyD; elim exE conjE; (elim disjE)?;
      simp add: fetchTodos_status_error addTodo_status_error toggle_status_error
        update_status_error delete_status_error http_error_message http_error_generic
        http_error_empty generic_message_def)

theorem status_error_message_surfaces_witness:
  "error_body (serve (failure 500 db_down :: Todo list response) fetchTodos_request) 500 db_down
   \<and> message_field db_down = Some (JString ''db down'')
   \<and> error_body (serve (failure 404 no_message :: unit response) (deleteTodo_request ''1'')) 404
       no_message
   \<and> object_without_message no_message
   \<and> error_body (serve (failure 500 empty_message :: unit response) (toggle_request bread)) 500
       empty_message
   \<and> message_field empty_message = Some (JString [])
   \<and> editingTodo listing = None
   \<and> trim (newTodoTitle listing) \<noteq> []
   \<and> editingTodo editing_milk = Some milk
   \<and> trim (newTodoTitle editing_milk) \<noteq> []
   \<and> error (snd (fetchTodos (serve (failure 500 db_down)) listing))
       = Some ''Failed to load todos: db down''
   \<and> error (snd (addTodo (serve (failure 500 db_down)) listing))
       = Some ''Failed to add todo: db down''
   \<and> error (snd (toggleTodoCompleted (serve (failure 500 db_down :: unit response)) bread
        listing))
       = Some ''Failed to update todo: db down''
   \<and> error (snd (updateTodo (serve (failure 500 db_down :: unit response)) editing_milk))
       = Some ''Failed to update todo: db down''
   \<and> error (snd (deleteTodo (serve (failure 500 db_down :: unit response)) ''1'' listing))
       = Some ''Failed to delete todo: db down''
   \<and> error (snd (fetchTodos (serve (failure 404 no_message)) listing))
       = Some ''Failed to load todos: HTTP error! status: 404''
   \<and> error (snd (addTodo (serve (failure 404 no_message)) listing))
       = Some ''Failed to add todo: HTTP error! status: 404''
   \<and> error (snd (toggleTodoCompleted (serve (failure 404 no_message :: unit response)) bread
        listing))
       = Some ''Failed to update todo: HTTP error! status: 404''
   \<and> error (snd (updateTodo (serve (failure 404 no_message :: unit response)) editing_milk))
       = Some ''Failed to update todo: HTTP error! status: 404''
   \<and> error (snd (deleteTodo (serve (failure 404 no_message :: unit response)) ''1'' listing))
       = Some ''Failed to delete todo: HTTP error! status: 404''
   \<and> error (snd (fetchTodos (serve (failure 500 empty_message)) listing))
       = Some ''Failed to load todos: HTTP error! status: 500''
   \<and> error (snd (addTodo (serve (failure 500 empty_message)) listing))
       = Some ''Failed to add todo: HTTP error! status: 500''
   \<and> error (snd (toggleTodoCompleted (serve (failure 500 empty_message :: unit response)) bread
        listing))
       = Some ''Failed to update todo: HTTP error! status: 500''
   \<and> error (snd (updateTodo (serve (failure 500 empty_message :: unit response)) editing_milk))
       = Some ''Failed to update todo: HTTP error! status: 500''
   \<and> error (snd (deleteTodo (serve (failure 500 empty_message :: unit response)) ''1'' listing))
       = Some ''Failed to delete todo: HTTP error! status: 500''"
proof -
  have a: "error_body (serve (failure c j :: 'a response) q) c' j'
      = (\<not> (200 \<le> c \<and> c \<le> 299) \<and> c = c' \<and> j = j')" for c c' j j' q
    by (simp add: error_body_def serve_def failure_def ok_def)
  have b: "message_field db_down = Some (JString ''db down'')"
    "message_field no_message = None" "message_field empty_message = Some (JString [])"
    "object_without_message no_message" "\<not> object_without_message db_down"
    "\<not> object_without_message empty_message"
    by (simp_all add: message_field_def object_without_message_def db_down_def no_message_def
        empty_message_def)
  have c: "editingTodo editing_milk = Some milk" "trim (newTodoTitle editing_milk) \<noteq> []"
    "editingTodo listing = None" "trim (newTodoTitle listing) \<noteq> []"
    by (simp_all add: editing_milk_def listing_def trim_def is_js_space_def)
  have d: "string_of_nat 404 = ''404''" "string_of_nat 500 = ''500''"
    by (simp_all add: string_of_nat.simps digit_char_def)
  show ?thesis
    using status_error_message_surfaces
      [of "serve (failure 500 db_down)" 500 db_down "''db down''" listing listing
          "serve (failure 500 db_down)" "serve (failure 500 db_down :: unit response)" bread
          editing_milk milk "serve (failure 500 db_down :: unit response)"
          "serve (failure 500 db_down :: unit response)" "''1''"]
      status_error_message_surfaces
      [of "serve (failure 404 no_message)" 404 no_message "''db down''" listing listing
          "serve (failure 404 no_message)" "serve (failure 404 no_message :: unit response)" bread
          editing_milk milk "serve (failure 404 no_message :: unit response)"
          "serve (failure 404 no_message :: unit response)" "''1''"]
      status_error_message_surfaces
      [of "serve (failure 500 empty_message)" 500 empty_message "''db down''" listing listing
          "serve (failure 500 empty_message)" "serve (failure 500 empty_message :: unit response)"
          bread editing_milk milk "serve (failure 500 empty_message :: unit response)"
          "serve (failure 500 empty_message :: unit response)" "''1''"]
    by (simp add: a b c d)
qed

section \<open>Duplicate ids\<close>

text \<open>
  C10. A successful toggle or update replaces every element whose id is the target's,
  at its index, and keeps the length; a successful remove deletes every element with the
  given id and keeps the others in order. With duplicate ids all duplicates are affected.
\<close>

theorem per_id_operations_act_on_all_matches:
  "(fT (toggle_request t) = Resolves rT \<and> ok rT \<longrightarrow>
      length (todos (snd (toggleTodoCompleted fT t s))) = length (todos s)
    \<and> (\<forall>k < length (todos s).
         todos (snd (toggleTodoCompleted fT t s)) ! k =
           (if id_todo (todos s ! k) = id_todo t then t\<lparr>completed := \<not> completed t\<rparr>
            else todos s ! k)))
 \<and> (editingTodo s = Some e \<and> trim (newTodoTitle s) \<noteq> []
      \<and> fU (updateTodo_request e) = Resolves rU \<and> ok rU \<longrightarrow>
      length (todos (snd (updateTodo fU s))) = length (todos s)
    \<and> (\<forall>k < length (todos s).
         todos (snd (updateTodo fU s)) ! k =
           (if id_todo (todos s ! k) = id_todo e then e\<lparr>title := trim (newTodoTitle s)\<rparr>
            else todos s ! k)))
 \<and> (fD (deleteTodo_request i) = Resolves rD \<and> ok rD \<longrightarrow>
      todos (snd (deleteTodo fD i s)) = filter (\<lambda>x. id_todo x \<noteq> i) (todos s)
    \<and> (\<forall>x \<in> set (todos (snd (deleteTodo fD i s))). id_todo x \<noteq> i)
    \<and> length (todos (snd (deleteTodo fD i s))) + length (filter (\<lambda>x. id_todo x = i) (todos s))
        = length (todos s))"
proof (intro conjI impI)
  assume "fT (toggle_request t) = Resolves rT \<and> ok rT"
  then have "todos (snd (toggleTodoCompleted fT t s))
      = map (\<lambda>x. if id_todo x = id_todo t then t\<lparr>completed := \<not> completed t\<rparr> else x) (todos s)"
    by (simp add: toggleTodoCompleted_def)
  then show "length (todos (snd (toggleTodoCompleted fT t s))) = length (todos s)"
    and "\<forall>k < length (todos s).
         todos (snd (toggleTodoCompleted fT t s)) ! k =
           (if id_todo (todos s ! k) = id_todo t then t\<lparr>completed := \<not> completed t\<rparr>
            else todos s ! k)"
    by simp_all
next
  assume "editingTodo s = Some e \<and> trim (newTodoTitle s) \<noteq> []
      \<and> fU (updateTodo_request e) = Resolves rU \<and> ok rU"
  then have "todos (snd (updateTodo fU s))
      = map (\<lambda>x. if id_todo x = id_todo e then e\<lparr>title := trim (newTodoTitle s)\<rparr> else x) (todos s)"
    by (simp add: updateTodo_def)
  then show "length (todos (snd (updateTodo fU s))) = length (todos s)"
    and "\<forall>k < length (todos s).
         todos (snd (updateTodo fU s)) ! k =
           (if id_todo (todos s ! k) = id_todo e then e\<lparr>title := trim (newTodoTitle s)\<rparr>
            else todos s ! k)"
    by simp_all
next
  assume "fD (deleteTodo_request i) = Resolves rD \<and> ok rD"
  then have *: "todos (snd (deleteTodo fD i s)) = filter (\<lambda>x. id_todo x \<noteq> i) (todos s)"
    by (simp add: deleteTodo_def)
  then show "todos (snd (deleteTodo fD i s)) = filter (\<lambda>x. id_todo x \<noteq> i) (todos s)"
    and "\<forall>x \<in> set (todos (snd (deleteTodo fD i s))). id_todo x \<noteq> i"
    by simp_all
  show "length (todos (snd (deleteTodo fD i s))) + length (filter (\<lambda>x. id_todo x = i) (todos s))
        = length (todos s)"
    unfolding * using sum_length_filter_compl [of "\<lambda>x. id_todo x = i" "todos s"] by simp
qed

theorem per_id_operations_act_on_all_matches_witness:
  "serve accepted (toggle_request milk) = Resolves accepted
   \<and> ok accepted
   \<and> editingTodo editing_milk = Some milk
   \<and> trim (newTodoTitle editing_milk) = ''buy oat milk''
   \<and> serve accepted (updateTodo_request milk) = Resolves accepted
   \<and> serve (no_content :: unit response) (deleteTodo_request ''1'') = Resolves no_content
   \<and> ok (no_content :: unit response)
   \<and> todos editing_milk = [milk, bread, milk_again]
   \<and> id_todo milk_again = id_todo milk
   \<and> todos (snd (toggleTodoCompleted (serve accepted) milk editing_milk))
       = [milk_done, bread, milk_done]
   \<and> todos (snd (updateTodo (serve accepted) editing_milk)) = [oat_milk, bread, oat_milk]
   \<and> todos (snd (deleteTodo (serve (no_content :: unit response)) ''1'' editing_milk)) = [bread]"
  using per_id_operations_act_on_all_matches
      [of "serve accepted" milk accepted editing_milk milk "serve accepted" accepted
          "serve (no_content :: unit response)" "''1''" no_content]
  by (simp add: serve_def accepted_def no_content_def ok_def editing_milk_def trim_def
      is_js_space_def milk_def bread_def milk_again_def milk_done_def oat_milk_def
      toggleTodoCompleted_def updateTodo_def deleteTodo_def Let_def)

end
